theory Spec2Isabelle
  imports Complex_Main "HOL-Library.Word"
begin

section \<open>JavaScript values\<close>

text \<open>
  A JavaScript string is a sequence of UTF-16 code units and \<open>.length\<close> counts them, so a
  string is a list of 16-bit words. The literals of the source that are not ASCII are
  written out as their code units.
\<close>

type_synonym jsstring = "16 word list"

definition ascii :: "string \<Rightarrow> jsstring" where
  "ascii s = map of_char s"

text \<open>
  A JavaScript number is modelled as an exact rational extended by \<open>NaN\<close> and the two
  infinities. Rounding to 64-bit floating point and the sign of zero are not modelled:
  \<open>Fin 0\<close> stands for \<open>+0\<close>.
\<close>

datatype jsnum = NaN | NegInf | Fin rat | PosInf

datatype jsvalue =
    JSUndefined
  | JSNull
  | JSBoolean bool
  | JSNumber jsnum
  | JSString jsstring

datatype error =
    TypeError \<comment> \<open>reading a property of \<open>null\<close> or \<open>undefined\<close>\<close>
  | InvalidInputTokens \<comment> \<open>the \<open>Error\<close> thrown by the first check of \<open>calculateCost\<close>\<close>
  | InvalidOutputTokens \<comment> \<open>the \<open>Error\<close> thrown by the second check of \<open>calculateCost\<close>\<close>


fun jsAdd :: "jsnum \<Rightarrow> jsnum \<Rightarrow> jsnum" where
  "jsAdd NaN _ = NaN"
| "jsAdd _ NaN = NaN"
| "jsAdd PosInf NegInf = NaN"
| "jsAdd NegInf PosInf = NaN"
| "jsAdd PosInf _ = PosInf"
| "jsAdd _ PosInf = PosInf"
| "jsAdd NegInf _ = NegInf"
| "jsAdd _ NegInf = NegInf"
| "jsAdd (Fin a) (Fin b) = Fin (a + b)"


fun jsMul :: "jsnum \<Rightarrow> jsnum \<Rightarrow> jsnum" where
  "jsMul NaN _ = NaN"
| "jsMul _ NaN = NaN"
| "jsMul (Fin a) (Fin b) = Fin (a * b)"
| "jsMul PosInf PosInf = PosInf"
| "jsMul NegInf NegInf = PosInf"
| "jsMul PosInf NegInf = NegInf"
| "jsMul NegInf PosInf = NegInf"
| "jsMul PosInf (Fin b) = (if b = 0 then NaN else if 0 < b then PosInf else NegInf)"
| "jsMul NegInf (Fin b) = (if b = 0 then NaN else if 0 < b then NegInf else PosInf)"
| "jsMul (Fin a) PosInf = (if a = 0 then NaN else if 0 < a then PosInf else NegInf)"
| "jsMul (Fin a) NegInf = (if a = 0 then NaN else if 0 < a then NegInf else PosInf)"

fun jsDiv :: "jsnum \<Rightarrow> jsnum \<Rightarrow> jsnum" where
  "jsDiv NaN _ = NaN"
| "jsDiv _ NaN = NaN"
| "jsDiv (Fin a) (Fin b) =
     (if b = 0 then (if a = 0 then NaN else if 0 < a then PosInf else NegInf)
      else Fin (a / b))"
| "jsDiv (Fin a) _ = Fin 0"
| "jsDiv PosInf (Fin b) = (if 0 \<le> b then PosInf else NegInf)"
| "jsDiv NegInf (Fin b) = (if 0 \<le> b then NegInf else PosInf)"
| "jsDiv _ _ = NaN"

fun jsLt :: "jsnum \<Rightarrow> jsnum \<Rightarrow> bool" where
  "jsLt NaN _ = False"
| "jsLt _ NaN = False"
| "jsLt (Fin a) (Fin b) = (a < b)"
| "jsLt _ NegInf = False"
| "jsLt PosInf _ = False"
| "jsLt NegInf _ = True"
| "jsLt _ PosInf = True"

fun jsLe :: "jsnum \<Rightarrow> jsnum \<Rightarrow> bool" where
  "jsLe NaN _ = False"
| "jsLe _ NaN = False"
| "jsLe (Fin a) (Fin b) = (a \<le> b)"
| "jsLe NegInf _ = True"
| "jsLe _ PosInf = True"
| "jsLe _ NegInf = False"
| "jsLe PosInf _ = False"

definition jsGt :: "jsnum \<Rightarrow> jsnum \<Rightarrow> bool" where
  "jsGt a b = jsLt b a"


fun jsCeil :: "jsnum \<Rightarrow> jsnum" where
  "jsCeil (Fin a) = Fin (of_int \<lceil>a\<rceil>)"
| "jsCeil x = x"

fun isNaN :: "jsnum \<Rightarrow> bool" where
  "isNaN NaN = True"
| "isNaN _ = False"

section \<open>src/core/ConversationManager.js\<close>

datatype MessageRole = SYSTEM | USER | ASSISTANT

text \<open>
  A stored message is \<open>{role, content, timestamp}\<close>; the entries that \<open>getMessages\<close>
  returns are \<open>{role, content}\<close>.
\<close>

record entry =
  role :: MessageRole
  content :: jsvalue

record message = entry +
  timestamp :: int

record ConversationManager =
  messages :: "message list"
  systemPrompt :: jsstring
  maxHistoryTokens :: jsnum

record options =
  optSystemPrompt :: "jsstring option"
  optMaxHistoryTokens :: "jsnum option"

definition DEFAULT_MAX_HISTORY_TOKENS :: jsnum where
  "DEFAULT_MAX_HISTORY_TOKENS = Fin 100000"

text \<open>
  The constructor reads both options through \<open>||\<close>: a missing, empty or zero option is
  falsy and gives the default.
\<close>

definition newConversationManager :: "options \<Rightarrow> ConversationManager" where
  "newConversationManager opts =
     \<lparr> messages = [],
       systemPrompt = (case optSystemPrompt opts of None \<Rightarrow> [] | Some s \<Rightarrow> if s = [] then [] else s),
       maxHistoryTokens =
         (case optMaxHistoryTokens opts of
            None \<Rightarrow> DEFAULT_MAX_HISTORY_TOKENS
          | Some n \<Rightarrow> if isNaN n \<or> n = Fin 0 then DEFAULT_MAX_HISTORY_TOKENS else n) \<rparr>"

definition setSystemPrompt :: "jsstring \<Rightarrow> ConversationManager \<Rightarrow> ConversationManager" where
  "setSystemPrompt prompt c = c\<lparr>systemPrompt := prompt\<rparr>"

text \<open>
  \<open>text.length\<close>: the number of code units of a string, a \<open>TypeError\<close> on \<open>null\<close> and
  \<open>undefined\<close>, and \<open>undefined\<close> on a number or a boolean, which the division that
  follows turns into \<open>NaN\<close>.
\<close>

fun lengthOf :: "jsvalue \<Rightarrow> error + jsnum" where
  "lengthOf (JSString s) = Inr (Fin (of_nat (length s)))"
| "lengthOf JSUndefined = Inl TypeError"
| "lengthOf JSNull = Inl TypeError"
| "lengthOf (JSBoolean _) = Inr NaN"
| "lengthOf (JSNumber _) = Inr NaN"

definition estimateTokens :: "jsvalue \<Rightarrow> error + jsnum" where
  "estimateTokens text =
     (case lengthOf text of
        Inl e \<Rightarrow> Inl e
      | Inr n \<Rightarrow> Inr (jsCeil (jsDiv n (Fin 3))))"

fun sumTokens :: "jsnum \<Rightarrow> message list \<Rightarrow> error + jsnum" where
  "sumTokens sofar [] = Inr sofar"
| "sumTokens sofar (msg # rest) =
     (case estimateTokens (content msg) of
        Inl e \<Rightarrow> Inl e
      | Inr n \<Rightarrow> sumTokens (jsAdd sofar n) rest)"

definition calculateTotalTokens :: "ConversationManager \<Rightarrow> error + jsnum" where
  "calculateTotalTokens c =
     (case (if systemPrompt c \<noteq> []
            then (case estimateTokens (JSString (systemPrompt c)) of
                    Inl e \<Rightarrow> Inl e
                  | Inr n \<Rightarrow> Inr (jsAdd (Fin 0) n))
            else Inr (Fin 0)) of
        Inl e \<Rightarrow> Inl e
      | Inr sofar \<Rightarrow> sumTokens sofar (messages c))"

text \<open>
  The loop of \<open>_trimHistoryIfNeeded\<close>. \<open>splice(0, 2)\<close> removes the first two messages.
  An exception of the estimate leaves the loop with the messages as they are then.
\<close>

function trimLoop :: "ConversationManager \<Rightarrow> error option \<times> ConversationManager" where
  "trimLoop c =
     (case calculateTotalTokens c of
        Inl e \<Rightarrow> (Some e, c)
      | Inr current \<Rightarrow>
          if jsGt current (maxHistoryTokens c) \<and> 2 \<le> length (messages c)
          then trimLoop (c\<lparr>messages := drop 2 (messages c)\<rparr>)
          else (None, c))"
  by pat_completeness auto
termination
  by (relation "measure (\<lambda>c. length (messages c))") auto

definition trimHistoryIfNeeded :: "ConversationManager \<Rightarrow> error option \<times> ConversationManager" where
  "trimHistoryIfNeeded c =
     (case calculateTotalTokens c of
        Inl e \<Rightarrow> (Some e, c)
      | Inr totalTokens \<Rightarrow>
          if jsLe totalTokens (maxHistoryTokens c) then (None, c)
          else (case trimLoop c of
                  (Some e, c') \<Rightarrow> (Some e, c')
                | (None, c') \<Rightarrow>
                    (case calculateTotalTokens c' of
                       Inl e \<Rightarrow> (Some e, c')
                     | Inr _ \<Rightarrow> (None, c'))))"

definition push :: "message \<Rightarrow> ConversationManager \<Rightarrow> ConversationManager" where
  "push msg c = c\<lparr>messages := messages c @ [msg]\<rparr>"

text \<open>\<open>Date.now()\<close> is the argument \<open>now\<close>.\<close>

definition addUserMessage ::
  "jsvalue \<Rightarrow> int \<Rightarrow> ConversationManager \<Rightarrow> error option \<times> ConversationManager" where
  "addUserMessage text now c =
     trimHistoryIfNeeded (push \<lparr>role = USER, content = text, timestamp = now\<rparr> c)"

definition addAssistantMessage ::
  "jsvalue \<Rightarrow> int \<Rightarrow> ConversationManager \<Rightarrow> error option \<times> ConversationManager" where
  "addAssistantMessage text now c =
     trimHistoryIfNeeded (push \<lparr>role = ASSISTANT, content = text, timestamp = now\<rparr> c)"

definition getMessages :: "ConversationManager \<Rightarrow> entry list" where
  "getMessages c =
     (if systemPrompt c \<noteq> [] then [\<lparr>role = SYSTEM, content = JSString (systemPrompt c)\<rparr>] else [])
     @ map (\<lambda>msg. \<lparr>role = role msg, content = content msg\<rparr>) (messages c)"

definition getFullHistory :: "ConversationManager \<Rightarrow> message list" where
  "getFullHistory c = messages c"

definition getSystemPrompt :: "ConversationManager \<Rightarrow> jsstring" where
  "getSystemPrompt c = systemPrompt c"

definition clear :: "ConversationManager \<Rightarrow> ConversationManager" where
  "clear c = c\<lparr>messages := []\<rparr>"

definition getTurnCount :: "ConversationManager \<Rightarrow> nat" where
  "getTurnCount c = length (messages c) div 2"

text \<open>
  \<open>Array.prototype.join\<close> turns \<open>null\<close> and \<open>undefined\<close> into the empty string and
  every other element into its string; the string of a number is the argument
  \<open>numberToString\<close>, and the text of a date in the locale \<open>zh-CN\<close> is the argument
  \<open>toLocaleString\<close>.
\<close>

fun elementToString :: "(jsnum \<Rightarrow> jsstring) \<Rightarrow> jsvalue \<Rightarrow> jsstring" where
  "elementToString numberToString (JSString s) = s"
| "elementToString numberToString JSUndefined = []"
| "elementToString numberToString JSNull = []"
| "elementToString numberToString (JSBoolean b) = (if b then ascii ''true'' else ascii ''false'')"
| "elementToString numberToString (JSNumber n) = numberToString n"

fun join :: "jsstring \<Rightarrow> jsstring list \<Rightarrow> jsstring" where
  "join sep [] = []"
| "join sep [x] = x"
| "join sep (x # y # rest) = x @ sep @ join sep (y # rest)"

definition emptyConversation :: jsstring where
  "emptyConversation = [0x28, 0x7A7A, 0x5BF9, 0x8BDD, 0x29]"

definition systemPromptHeading :: jsstring where
  "systemPromptHeading =
     ascii ''=== '' @ [0x7CFB, 0x7EDF, 0x63D0, 0x793A, 0x8BCD] @ ascii '' ===''"

definition historyHeading :: jsstring where
  "historyHeading = ascii ''=== '' @ [0x5BF9, 0x8BDD, 0x5386, 0x53F2] @ ascii '' ===''"

definition userLabel :: jsstring where
  "userLabel = [0x7528, 0x6237]"

definition assistantLabel :: jsstring where
  "assistantLabel = [0x52A9, 0x624B]"

definition messageLines :: "(int \<Rightarrow> jsstring) \<Rightarrow> message \<Rightarrow> jsvalue list" where
  "messageLines toLocaleString msg =
     [JSString (ascii ''['' @ toLocaleString (timestamp msg) @ ascii ''] ''
        @ (if role msg = USER then userLabel else assistantLabel) @ ascii '':''),
      content msg,
      JSString []]"

definition exportToText ::
  "(int \<Rightarrow> jsstring) \<Rightarrow> (jsnum \<Rightarrow> jsstring) \<Rightarrow> ConversationManager \<Rightarrow> jsstring" where
  "exportToText toLocaleString numberToString c =
     (if length (messages c) = 0 \<and> systemPrompt c = [] then emptyConversation
      else
        join [0x0A]
          (map (elementToString numberToString)
            ((if systemPrompt c \<noteq> []
              then [JSString systemPromptHeading, JSString (systemPrompt c), JSString []]
              else [])
             @ (if 0 < length (messages c)
                then JSString historyHeading # concat (map (messageLines toLocaleString) (messages c))
                else []))))"

section \<open>config.js\<close>

definition DEFAULT_MODEL_NAME :: jsstring where
  "DEFAULT_MODEL_NAME = ascii ''claude-3-5-sonnet-20241022''"

text \<open>
  The static fields of \<open>Config\<close> that the cost computation reads. \<open>DEFAULT_MODEL\<close> is
  \<open>process.env.DEFAULT_MODEL || DEFAULT_MODEL_NAME\<close>, fixed when the module is loaded.
\<close>

record Config =
  DEFAULT_MODEL :: jsstring
  DAILY_BUDGET :: jsnum

definition loadDefaultModel :: "jsstring option \<Rightarrow> jsstring" where
  "loadDefaultModel env =
     (case env of None \<Rightarrow> DEFAULT_MODEL_NAME | Some m \<Rightarrow> if m = [] then DEFAULT_MODEL_NAME else m)"

definition glmPrices :: "(jsstring \<times> rat \<times> rat) list" where
  "glmPrices =
     [(ascii ''GLM-4.7'', 0.5, 0.5),
      (ascii ''GLM-4'', 0.1, 0.1)]"

definition claudePrices :: "(jsstring \<times> rat \<times> rat) list" where
  "claudePrices =
     [(ascii ''claude-3-5-sonnet-20241022'', 3, 15),
      (ascii ''claude-3-opus-20240229'', 15, 75),
      (ascii ''claude-3-haiku-20240307'', 0.25, 1.25)]"

text \<open>
  Both price tables are object literals, and \<open>table[model]\<close> is a property read: a key
  that the literal does not have is looked up in \<open>Object.prototype\<close>, whose members are
  functions (and, for \<open>__proto__\<close>, the prototype object itself), all truthy and none with
  an \<open>input\<close> or \<open>output\<close> property.
\<close>

definition objectPrototypeKeys :: "jsstring list" where
  "objectPrototypeKeys =
     [ascii ''constructor'', ascii ''hasOwnProperty'', ascii ''isPrototypeOf'',
      ascii ''propertyIsEnumerable'', ascii ''toLocaleString'', ascii ''toString'',
      ascii ''valueOf'', ascii ''__proto__'', ascii ''__defineGetter__'',
      ascii ''__defineSetter__'', ascii ''__lookupGetter__'', ascii ''__lookupSetter__'']"

datatype property = Prices rat rat | InheritedMember

definition getProperty :: "(jsstring \<times> rat \<times> rat) list \<Rightarrow> jsstring \<Rightarrow> property option" where
  "getProperty table key =
     (case map_of table key of
        Some (a, b) \<Rightarrow> Some (Prices a b)
      | None \<Rightarrow> if key \<in> set objectPrototypeKeys then Some InheritedMember else None)"

text \<open>
  \<open>prices.input\<close> and \<open>prices.output\<close> as the factor of a product: \<open>undefined\<close> on an
  inherited member, which the product turns into \<open>NaN\<close>.
\<close>

fun inputPrice :: "property \<Rightarrow> jsnum" where
  "inputPrice (Prices a b) = Fin a"
| "inputPrice InheritedMember = NaN"

fun outputPrice :: "property \<Rightarrow> jsnum" where
  "outputPrice (Prices a b) = Fin b"
| "outputPrice InheritedMember = NaN"

definition startsWith :: "jsstring \<Rightarrow> jsstring \<Rightarrow> bool" where
  "startsWith s p = (take (length p) s = p)"

text \<open>The result is \<open>None\<close> where the source returns \<open>undefined\<close>.\<close>

definition getModelPrices :: "Config \<Rightarrow> jsstring option \<Rightarrow> property option" where
  "getModelPrices cfg modelArg =
     (let model = (case modelArg of None \<Rightarrow> DEFAULT_MODEL cfg | Some m \<Rightarrow> m) in
      if startsWith model (ascii ''GLM'')
      then (case getProperty glmPrices model of
              Some p \<Rightarrow> Some p
            | None \<Rightarrow> getProperty glmPrices (ascii ''GLM-4.7''))
      else (case getProperty claudePrices model of
              Some p \<Rightarrow> Some p
            | None \<Rightarrow> getProperty claudePrices DEFAULT_MODEL_NAME))"

section \<open>src/utils/cost-calculator.js\<close>

record tokens =
  inputTokens :: jsnum
  outputTokens :: jsnum
  totalTokens :: jsnum

record costDetails = tokens +
  inputCost :: jsnum
  outputCost :: jsnum
  totalCost :: jsnum

text \<open>
  The check that \<open>calculateCost\<close> makes of each count:
  \<open>typeof x !== 'number' || isNaN(x) || x < 0\<close>.
\<close>

fun invalidCount :: "jsvalue \<Rightarrow> bool" where
  "invalidCount (JSNumber n) = (isNaN n \<or> jsLt n (Fin 0))"
| "invalidCount _ = True"

text \<open>The number that a count is in arithmetic, read only after the check.\<close>

fun numberOf :: "jsvalue \<Rightarrow> jsnum" where
  "numberOf (JSNumber n) = n"
| "numberOf _ = NaN"

text \<open>Reading \<open>prices.input\<close> of \<open>undefined\<close> would be a \<open>TypeError\<close>.\<close>

definition calculateCost ::
  "Config \<Rightarrow> jsvalue \<Rightarrow> jsvalue \<Rightarrow> jsstring option \<Rightarrow> error + costDetails" where
  "calculateCost cfg inputArg outputArg model =
     (if invalidCount inputArg then Inl InvalidInputTokens
      else if invalidCount outputArg then Inl InvalidOutputTokens
      else (case getModelPrices cfg model of
              None \<Rightarrow> Inl TypeError
            | Some prices \<Rightarrow>
                Inr \<lparr> inputTokens = numberOf inputArg,
                      outputTokens = numberOf outputArg,
                      totalTokens = jsAdd (numberOf inputArg) (numberOf outputArg),
                      inputCost =
                        jsMul (jsDiv (numberOf inputArg) (Fin 1000000)) (inputPrice prices),
                      outputCost =
                        jsMul (jsDiv (numberOf outputArg) (Fin 1000000)) (outputPrice prices),
                      totalCost =
                        jsAdd (jsMul (jsDiv (numberOf inputArg) (Fin 1000000)) (inputPrice prices))
                              (jsMul (jsDiv (numberOf outputArg) (Fin 1000000))
                                 (outputPrice prices)) \<rparr>))"

section \<open>src/core/TokenTracker.js\<close>

record usageTotals = tokens +
  cost :: jsnum

record TokenTracker =
  budget :: jsnum
  usage :: usageTotals

definition zeroUsage :: usageTotals where
  "zeroUsage = \<lparr>inputTokens = Fin 0, outputTokens = Fin 0, totalTokens = Fin 0, cost = Fin 0\<rparr>"

definition newTokenTracker :: "Config \<Rightarrow> jsnum option \<Rightarrow> TokenTracker" where
  "newTokenTracker cfg budgetArg =
     \<lparr> budget = (case budgetArg of None \<Rightarrow> DAILY_BUDGET cfg | Some b \<Rightarrow> b),
       usage = zeroUsage \<rparr>"

text \<open>
  \<open>addUsage\<close> returns the cost details, or the exception of \<open>calculateCost\<close>, and the
  tracker after the call.
\<close>

definition addUsage ::
  "Config \<Rightarrow> jsvalue \<Rightarrow> jsvalue \<Rightarrow> jsstring option \<Rightarrow> TokenTracker
     \<Rightarrow> (error + costDetails) \<times> TokenTracker" where
  "addUsage cfg inputArg outputArg modelArg t =
     (let model = (case modelArg of None \<Rightarrow> DEFAULT_MODEL cfg | Some m \<Rightarrow> m) in
      case calculateCost cfg inputArg outputArg (Some model) of
        Inl e \<Rightarrow> (Inl e, t)
      | Inr details \<Rightarrow>
          (Inr details,
           t\<lparr>usage :=
               \<lparr> inputTokens = jsAdd (inputTokens (usage t)) (inputTokens details),
                 outputTokens = jsAdd (outputTokens (usage t)) (outputTokens details),
                 totalTokens = jsAdd (totalTokens (usage t)) (totalTokens details),
                 cost = jsAdd (cost (usage t)) (totalCost details) \<rparr>\<rparr>))"

definition getCurrentCost :: "TokenTracker \<Rightarrow> jsnum" where
  "getCurrentCost t = cost (usage t)"












section \<open>Sequences of calls\<close>

text \<open>A caller's use of one history: the calls that change it, in order.\<close>

datatype call =
    SetSystemPrompt jsstring
  | AddUserMessage jsvalue int
  | AddAssistantMessage jsvalue int
  | Clear

text \<open>
  The history after a call. An exception of \<open>addUserMessage\<close> or
  \<open>addAssistantMessage\<close> reaches the caller with the history as the call left it.
\<close>

fun perform :: "call \<Rightarrow> ConversationManager \<Rightarrow> ConversationManager" where
  "perform (SetSystemPrompt prompt) c = setSystemPrompt prompt c"
| "perform (AddUserMessage text now) c = snd (addUserMessage text now c)"
| "perform (AddAssistantMessage text now) c = snd (addAssistantMessage text now c)"
| "perform Clear c = clear c"

definition performAll :: "call list \<Rightarrow> ConversationManager \<Rightarrow> ConversationManager" where
  "performAll calls c = foldl (\<lambda>c' k. perform k c') c calls"

text \<open>The message that a call appends, if it appends one.\<close>

fun appended :: "call \<Rightarrow> message option" where
  "appended (AddUserMessage text now) = Some \<lparr>role = USER, content = text, timestamp = now\<rparr>"
| "appended (AddAssistantMessage text now) = Some \<lparr>role = ASSISTANT, content = text, timestamp = now\<rparr>"
| "appended _ = None"

text \<open>
  The condition of the \<open>while\<close> loop, false when the estimate raises, and the history with
  its \<open>k\<close> oldest pairs of messages removed.
\<close>

definition loopCondition :: "ConversationManager \<Rightarrow> bool" where
  "loopCondition c =
     (case calculateTotalTokens c of
        Inl e \<Rightarrow> False
      | Inr current \<Rightarrow> jsGt current (maxHistoryTokens c) \<and> 2 \<le> length (messages c))"

definition withoutOldestPairs :: "nat \<Rightarrow> ConversationManager \<Rightarrow> ConversationManager" where
  "withoutOldestPairs k c = c\<lparr>messages := drop (2 * k) (messages c)\<rparr>"

text \<open>
  The default parameter \<open>model = Config.DEFAULT_MODEL\<close>, and a caller's use of one
  tracker: the calls of \<open>addUsage\<close> in order, giving the cost details that the calls that
  succeed return and the tracker after the last call.
\<close>

definition modelOf :: "Config \<Rightarrow> jsstring option \<Rightarrow> jsstring" where
  "modelOf cfg modelArg = (case modelArg of None \<Rightarrow> DEFAULT_MODEL cfg | Some m \<Rightarrow> m)"

type_synonym usageCall = "jsvalue \<times> jsvalue \<times> jsstring option"

fun addUsages :: "Config \<Rightarrow> usageCall list \<Rightarrow> TokenTracker \<Rightarrow> costDetails list \<times> TokenTracker" where
  "addUsages cfg [] t = ([], t)"
| "addUsages cfg ((inputArg, outputArg, modelArg) # calls) t =
     (case addUsage cfg inputArg outputArg modelArg t of
        (Inl e, t') \<Rightarrow> addUsages cfg calls t'
      | (Inr details, t') \<Rightarrow>
          (details # fst (addUsages cfg calls t'), snd (addUsages cfg calls t')))"

text \<open>A number that is neither \<open>NaN\<close> nor negative, and a tracker whose four totals are such.\<close>

definition nonNegative :: "jsnum \<Rightarrow> bool" where
  "nonNegative x = jsLe (Fin 0) x"

definition nonNegativeUsage :: "TokenTracker \<Rightarrow> bool" where
  "nonNegativeUsage t \<longleftrightarrow> nonNegative (inputTokens (usage t)) \<and> nonNegative (outputTokens (usage t))
     \<and> nonNegative (totalTokens (usage t)) \<and> nonNegative (cost (usage t))"

section \<open>Trimming the history\<close>

declare trimLoop.simps [simp del]

lemma jsLe_not_jsGt: "jsLe a b \<Longrightarrow> \<not> jsGt a b"
  by (cases a; cases b) (auto simp: jsGt_def)

lemma withoutOldestPairs_0: "withoutOldestPairs 0 c = c"
  by (simp add: withoutOldestPairs_def)

lemma withoutOldestPairs_Suc:
  "withoutOldestPairs (Suc k) c = withoutOldestPairs k (c\<lparr>messages := drop 2 (messages c)\<rparr>)"
  by (simp add: withoutOldestPairs_def add.commute)

lemma trimLoop_removes_pairs:
  "\<exists>k\<le>length (messages c) div 2.
     snd (trimLoop c) = withoutOldestPairs k c
     \<and> (\<forall>j<k. loopCondition (withoutOldestPairs j c))
     \<and> \<not> loopCondition (withoutOldestPairs k c)"
proof (induction c rule: trimLoop.induct)
  case (1 c)
  show ?case
  proof (cases "loopCondition c")
    case False
    then have "snd (trimLoop c) = c"
      by (subst trimLoop.simps) (auto simp: loopCondition_def split: sum.splits)
    with False show ?thesis
      by (intro exI[of _ 0]) (simp add: withoutOldestPairs_0)
  next
    case True
    then obtain current where cur: "calculateTotalTokens c = Inr current"
      and gt: "jsGt current (maxHistoryTokens c) \<and> 2 \<le> length (messages c)"
      by (auto simp: loopCondition_def split: sum.splits)
    let ?c' = "c\<lparr>messages := drop 2 (messages c)\<rparr>"
    from "1.IH"[OF cur gt] obtain k where k: "k \<le> length (messages ?c') div 2"
      "snd (trimLoop ?c') = withoutOldestPairs k ?c'"
      "\<forall>j<k. loopCondition (withoutOldestPairs j ?c')"
      "\<not> loopCondition (withoutOldestPairs k ?c')"
      by blast
    have step: "trimLoop c = trimLoop ?c'"
      using cur gt by (subst trimLoop.simps) simp
    have "\<forall>j<Suc k. loopCondition (withoutOldestPairs j c)"
    proof (intro allI impI)
      fix j assume "j < Suc k"
      then show "loopCondition (withoutOldestPairs j c)"
        using True k(3) by (cases j) (simp_all add: withoutOldestPairs_0 withoutOldestPairs_Suc)
    qed
    moreover have "Suc k \<le> length (messages c) div 2"
      using k(1) gt by (simp, arith)
    ultimately show ?thesis
      using k(2,4) step by (intro exI[of _ "Suc k"]) (simp add: withoutOldestPairs_Suc)
  qed
qed

lemma trimHistoryIfNeeded_removes_pairs:
  "\<exists>k\<le>length (messages c) div 2.
     snd (trimHistoryIfNeeded c) = withoutOldestPairs k c
     \<and> (\<forall>j<k. loopCondition (withoutOldestPairs j c))
     \<and> \<not> loopCondition (withoutOldestPairs k c)"
proof (cases "calculateTotalTokens c")
  case (Inl e)
  then show ?thesis
    by (intro exI[of _ 0]) (simp add: trimHistoryIfNeeded_def loopCondition_def withoutOldestPairs_0)
next
  case (Inr totalTokens)
  show ?thesis
  proof (cases "jsLe totalTokens (maxHistoryTokens c)")
    case True
    with Inr show ?thesis
      by (intro exI[of _ 0])
         (simp add: trimHistoryIfNeeded_def loopCondition_def withoutOldestPairs_0 jsLe_not_jsGt)
  next
    case False
    with Inr have "snd (trimHistoryIfNeeded c) = snd (trimLoop c)"
      by (auto simp: trimHistoryIfNeeded_def split: prod.splits option.splits sum.splits)
    then show ?thesis
      using trimLoop_removes_pairs[of c] by simp
  qed
qed


lemma estimateTokens_string:
  "estimateTokens (JSString s) = Inr (Fin (of_nat ((length s + 2) div 3)))"
proof -
  have "\<lceil>(of_nat (length s)::rat) / 3\<rceil> = int ((length s + 2) div 3)"
    by linarith
  then show ?thesis
    by (simp add: estimateTokens_def)
qed

lemma sumTokens_strings:
  assumes "\<forall>m\<in>set ms. \<exists>s. content m = JSString s"
  shows "\<exists>q. sumTokens (Fin a) ms = Inr (Fin q)"
  using assms
proof (induction ms arbitrary: a)
  case Nil
  show ?case by simp
next
  case (Cons m ms)
  from Cons.prems obtain s where s: "content m = JSString s" by auto
  from Cons.prems have "\<forall>m\<in>set ms. \<exists>s. content m = JSString s" by simp
  from Cons.IH[OF this] s show ?case
    by (simp add: estimateTokens_string)
qed

lemma calculateTotalTokens_strings:
  assumes "\<forall>m\<in>set (messages c). \<exists>s. content m = JSString s"
  shows "\<exists>q. calculateTotalTokens c = Inr (Fin q)"
  using sumTokens_strings[OF assms]
  by (simp add: calculateTotalTokens_def estimateTokens_string)

lemma trimLoop_strings:
  assumes "\<forall>m\<in>set (messages c). \<exists>s. content m = JSString s"
  shows "fst (trimLoop c) = None"
  using assms
proof (induction c rule: trimLoop.induct)
  case (1 c)
  from calculateTotalTokens_strings[OF "1.prems"] obtain q where
    q: "calculateTotalTokens c = Inr (Fin q)" by blast
  show ?case
  proof (cases "jsGt (Fin q) (maxHistoryTokens c) \<and> 2 \<le> length (messages c)")
    case True
    have "\<forall>m\<in>set (messages (c\<lparr>messages := drop 2 (messages c)\<rparr>)). \<exists>s. content m = JSString s"
      using "1.prems" by (auto dest: in_set_dropD)
    from "1.IH"[OF q True this] q True show ?thesis
      by (subst trimLoop.simps) simp
  next
    case False
    with q show ?thesis
      by (subst trimLoop.simps) auto
  qed
qed

lemma trimHistoryIfNeeded_strings:
  assumes "\<forall>m\<in>set (messages c). \<exists>s. content m = JSString s"
  shows "fst (trimHistoryIfNeeded c) = None"
proof -
  from calculateTotalTokens_strings[OF assms] obtain q where
    q: "calculateTotalTokens c = Inr (Fin q)" by blast
  obtain k where k: "snd (trimLoop c) = withoutOldestPairs k c"
    using trimLoop_removes_pairs[of c] by blast
  have "\<forall>m\<in>set (messages (snd (trimLoop c))). \<exists>s. content m = JSString s"
    using assms by (auto simp: k withoutOldestPairs_def dest: in_set_dropD)
  from calculateTotalTokens_strings[OF this] obtain q' where
    q': "calculateTotalTokens (snd (trimLoop c)) = Inr (Fin q')" by blast
  show ?thesis
    using q q' trimLoop_strings[OF assms]
    by (cases "trimLoop c") (auto simp: trimHistoryIfNeeded_def)
qed

text \<open>
  Claim C1. After \<open>addUserMessage\<close> and after \<open>addAssistantMessage\<close> the history is the
  history with the new message appended and then its \<open>k\<close> oldest pairs of messages
  removed, and nothing else changed, where \<open>k\<close> is the number of rounds of the loop: the
  condition of the loop (the estimate of the system prompt and all stored messages
  exceeds \<open>maxHistoryTokens\<close>, and at least two messages remain) holds before each of the
  \<open>k\<close> removals and fails after the last. So the stored messages are a contiguous suffix
  of the appended ones, the system prompt is never removed, and the loop ends, after
  removing no more messages than there are. When every content is a string, no call
  raises.
\<close>

theorem trimming_runs_after_every_append:
  "(\<exists>k. 2 * k \<le> length (messages c) + 1 \<and>
      snd (addUserMessage text now c) =
        withoutOldestPairs k (push \<lparr>role = USER, content = text, timestamp = now\<rparr> c)
      \<and> messages (snd (addUserMessage text now c)) =
          drop (2 * k) (messages c @ [\<lparr>role = USER, content = text, timestamp = now\<rparr>])
      \<and> systemPrompt (snd (addUserMessage text now c)) = systemPrompt c
      \<and> (\<forall>j<k. loopCondition
            (withoutOldestPairs j (push \<lparr>role = USER, content = text, timestamp = now\<rparr> c)))
      \<and> \<not> loopCondition
            (withoutOldestPairs k (push \<lparr>role = USER, content = text, timestamp = now\<rparr> c)))
   \<and> (\<exists>k. 2 * k \<le> length (messages c) + 1 \<and>
      snd (addAssistantMessage text now c) =
        withoutOldestPairs k (push \<lparr>role = ASSISTANT, content = text, timestamp = now\<rparr> c)
      \<and> messages (snd (addAssistantMessage text now c)) =
          drop (2 * k) (messages c @ [\<lparr>role = ASSISTANT, content = text, timestamp = now\<rparr>])
      \<and> systemPrompt (snd (addAssistantMessage text now c)) = systemPrompt c
      \<and> (\<forall>j<k. loopCondition
            (withoutOldestPairs j (push \<lparr>role = ASSISTANT, content = text, timestamp = now\<rparr> c)))
      \<and> \<not> loopCondition
            (withoutOldestPairs k (push \<lparr>role = ASSISTANT, content = text, timestamp = now\<rparr> c)))
   \<and> ((\<forall>m\<in>set (messages c). \<exists>s. content m = JSString s) \<and> (\<exists>s. text = JSString s) \<longrightarrow>
        fst (addUserMessage text now c) = None \<and> fst (addAssistantMessage text now c) = None)"
proof -
  have no_error: "fst (trimHistoryIfNeeded (push msg c)) = None"
    if "\<forall>m\<in>set (messages c). \<exists>s. content m = JSString s" and "\<exists>s. content msg = JSString s"
    for msg
    using that by (intro trimHistoryIfNeeded_strings) (auto simp: push_def)
  have general: "\<exists>k. 2 * k \<le> length (messages c) + 1 \<and>
      snd (trimHistoryIfNeeded (push msg c)) = withoutOldestPairs k (push msg c)
      \<and> messages (snd (trimHistoryIfNeeded (push msg c))) = drop (2 * k) (messages c @ [msg])
      \<and> systemPrompt (snd (trimHistoryIfNeeded (push msg c))) = systemPrompt c
      \<and> (\<forall>j<k. loopCondition (withoutOldestPairs j (push msg c)))
      \<and> \<not> loopCondition (withoutOldestPairs k (push msg c))" for msg
  proof -
    obtain k where k: "k \<le> length (messages (push msg c)) div 2"
      "snd (trimHistoryIfNeeded (push msg c)) = withoutOldestPairs k (push msg c)"
      "\<forall>j<k. loopCondition (withoutOldestPairs j (push msg c))"
      "\<not> loopCondition (withoutOldestPairs k (push msg c))"
      using trimHistoryIfNeeded_removes_pairs[of "push msg c"] by blast
    from k(1) have "2 * k \<le> length (messages c) + 1"
      by (simp add: push_def)
    moreover have "messages (withoutOldestPairs k (push msg c)) = drop (2 * k) (messages c @ [msg])"
      "systemPrompt (withoutOldestPairs k (push msg c)) = systemPrompt c"
      by (simp_all add: withoutOldestPairs_def push_def)
    ultimately show ?thesis
      using k(2,3,4) by (intro exI[of _ k]) simp
  qed
  show ?thesis
    unfolding addUserMessage_def addAssistantMessage_def
  proof (intro conjI impI)
    show "\<exists>k. 2 * k \<le> length (messages c) + 1 \<and>
      snd (trimHistoryIfNeeded (push \<lparr>role = USER, content = text, timestamp = now\<rparr> c)) =
        withoutOldestPairs k (push \<lparr>role = USER, content = text, timestamp = now\<rparr> c)
      \<and> messages (snd (trimHistoryIfNeeded (push \<lparr>role = USER, content = text, timestamp = now\<rparr> c))) =
          drop (2 * k) (messages c @ [\<lparr>role = USER, content = text, timestamp = now\<rparr>])
      \<and> systemPrompt (snd (trimHistoryIfNeeded (push \<lparr>role = USER, content = text, timestamp = now\<rparr> c))) = systemPrompt c
      \<and> (\<forall>j<k. loopCondition
            (withoutOldestPairs j (push \<lparr>role = USER, content = text, timestamp = now\<rparr> c)))
      \<and> \<not> loopCondition
            (withoutOldestPairs k (push \<lparr>role = USER, content = text, timestamp = now\<rparr> c))"
      by (rule general)
    show "\<exists>k. 2 * k \<le> length (messages c) + 1 \<and>
      snd (trimHistoryIfNeeded (push \<lparr>role = ASSISTANT, content = text, timestamp = now\<rparr> c)) =
        withoutOldestPairs k (push \<lparr>role = ASSISTANT, content = text, timestamp = now\<rparr> c)
      \<and> messages (snd (trimHistoryIfNeeded (push \<lparr>role = ASSISTANT, content = text, timestamp = now\<rparr> c))) =
          drop (2 * k) (messages c @ [\<lparr>role = ASSISTANT, content = text, timestamp = now\<rparr>])
      \<and> systemPrompt (snd (trimHistoryIfNeeded (push \<lparr>role = ASSISTANT, content = text, timestamp = now\<rparr> c))) = systemPrompt c
      \<and> (\<forall>j<k. loopCondition
            (withoutOldestPairs j (push \<lparr>role = ASSISTANT, content = text, timestamp = now\<rparr> c)))
      \<and> \<not> loopCondition
            (withoutOldestPairs k (push \<lparr>role = ASSISTANT, content = text, timestamp = now\<rparr> c))"
      by (rule general)
  next
    assume a: "(\<forall>m\<in>set (messages c). \<exists>s. content m = JSString s) \<and> (\<exists>s. text = JSString s)"
    then show "fst (trimHistoryIfNeeded (push \<lparr>role = USER, content = text, timestamp = now\<rparr> c)) = None"
      by (intro no_error) simp_all
    from a show "fst (trimHistoryIfNeeded (push \<lparr>role = ASSISTANT, content = text, timestamp = now\<rparr> c)) = None"
      by (intro no_error) simp_all
  qed
qed

theorem trimming_runs_after_every_append_witness:
  "addAssistantMessage (JSString (ascii ''uvwxyz'')) 2
      \<lparr>messages = [\<lparr>role = USER, content = JSString (ascii ''abcdef''), timestamp = 1\<rparr>],
       systemPrompt = [], maxHistoryTokens = Fin 3\<rparr>
     = (None, \<lparr>messages = [], systemPrompt = [], maxHistoryTokens = Fin 3\<rparr>)
   \<and> loopCondition (push \<lparr>role = ASSISTANT, content = JSString (ascii ''uvwxyz''), timestamp = 2\<rparr>
      \<lparr>messages = [\<lparr>role = USER, content = JSString (ascii ''abcdef''), timestamp = 1\<rparr>],
       systemPrompt = [], maxHistoryTokens = Fin 3\<rparr>)"
  using trimming_runs_after_every_append [of
      "\<lparr>messages = [\<lparr>role = USER, content = JSString (ascii ''abcdef''), timestamp = 1\<rparr>],
        systemPrompt = [], maxHistoryTokens = Fin 3\<rparr>"
      "JSString (ascii ''uvwxyz'')" 2]
  by (simp add: addAssistantMessage_def push_def trimHistoryIfNeeded_def loopCondition_def
      calculateTotalTokens_def estimateTokens_string ascii_def trimLoop.simps jsGt_def)

section \<open>Content that is not a string\<close>




lemma jsLt_NaN [simp]: "\<not> jsLt a NaN"
  by (cases a) simp_all

lemma jsLe_NaN [simp]: "\<not> jsLe a NaN"
  by (cases a) simp_all






section \<open>The count after a run of appends\<close>

lemma append_then_trim:
  "\<exists>k. 2 * k \<le> length (messages c) + 1
     \<and> messages (snd (trimHistoryIfNeeded (push msg c))) = drop (2 * k) (messages c @ [msg])"
proof -
  obtain k where k: "k \<le> length (messages (push msg c)) div 2"
    "snd (trimHistoryIfNeeded (push msg c)) = withoutOldestPairs k (push msg c)"
    using trimHistoryIfNeeded_removes_pairs[of "push msg c"] by blast
  from k(1) have "2 * k \<le> length (messages c) + 1"
    by (simp add: push_def)
  with k(2) show ?thesis
    by (intro exI[of _ k]) (simp add: withoutOldestPairs_def push_def)
qed

lemma perform_appended:
  assumes "appended call = Some msg"
  shows "perform call c = snd (trimHistoryIfNeeded (push msg c))"
  using assms by (cases call) (auto simp: addUserMessage_def addAssistantMessage_def)

lemma perform_add_count:
  assumes "appended call = Some msg"
  shows "\<exists>k. length (messages (perform call c)) + 2 * k = length (messages c) + 1"
proof -
  from append_then_trim[of c msg] obtain k where
    "2 * k \<le> length (messages c) + 1"
    "messages (snd (trimHistoryIfNeeded (push msg c))) = drop (2 * k) (messages c @ [msg])"
    by blast
  then show ?thesis
    by (intro exI[of _ k]) (simp add: perform_appended[OF assms])
qed

lemma perform_add_last:
  assumes "appended call = Some msg" and "messages (perform call c) \<noteq> []"
  shows "last (messages (perform call c)) = msg"
proof -
  from append_then_trim[of c msg] obtain k where
    k: "messages (snd (trimHistoryIfNeeded (push msg c))) = drop (2 * k) (messages c @ [msg])"
    by blast
  with assms(2) have "drop (2 * k) (messages c @ [msg]) \<noteq> []"
    by (simp add: perform_appended[OF assms(1)])
  then have "2 * k < length (messages c @ [msg])"
    by (simp only: drop_eq_Nil not_le)
  then have "last (drop (2 * k) (messages c @ [msg])) = last (messages c @ [msg])"
    by (rule last_drop)
  with k show ?thesis
    by (simp add: perform_appended[OF assms(1)])
qed

lemma performAll_Cons: "performAll (call # calls) c = performAll calls (perform call c)"
  by (simp add: performAll_def)

lemma performAll_snoc: "performAll (calls @ [call]) c = perform call (performAll calls c)"
  by (simp add: performAll_def)

lemma performAll_add_count:
  assumes "\<forall>call\<in>set calls. appended call \<noteq> None"
  shows "\<exists>k. length (messages (performAll calls c)) + 2 * k = length (messages c) + length calls"
  using assms
proof (induction calls arbitrary: c)
  case Nil
  show ?case by (simp add: performAll_def)
next
  case (Cons call calls)
  from Cons.prems obtain msg where "appended call = Some msg" by auto
  from perform_add_count[OF this, of c] obtain k1 where
    k1: "length (messages (perform call c)) + 2 * k1 = length (messages c) + 1" by blast
  from Cons.IH[of "perform call c"] Cons.prems obtain k2 where
    k2: "length (messages (performAll calls (perform call c))) + 2 * k2 =
         length (messages (perform call c)) + length calls" by auto
  from k1 k2 show ?case
    by (intro exI[of _ "k1 + k2"]) (simp add: performAll_Cons)
qed

text \<open>
  Claim C6, as stated, on a new history with \<open>maxHistoryTokens = 3\<close> and three alternating
  calls with six characters each. The second append drives the estimate to 4; the loop
  removes the only pair, the message just added with it. After the third call one message
  is stored: the count is odd.
\<close>

theorem count_after_appends_counterexample:
  "calculateTotalTokens
     (push \<lparr>role = ASSISTANT, content = JSString (ascii ''bbbbbb''), timestamp = 2\<rparr>
       (performAll [AddUserMessage (JSString (ascii ''aaaaaa'')) 1]
         (newConversationManager \<lparr>optSystemPrompt = None, optMaxHistoryTokens = Some (Fin 3)\<rparr>)))
     = Inr (Fin 4)
   \<and> messages (performAll
        [AddUserMessage (JSString (ascii ''aaaaaa'')) 1,
         AddAssistantMessage (JSString (ascii ''bbbbbb'')) 2]
        (newConversationManager \<lparr>optSystemPrompt = None, optMaxHistoryTokens = Some (Fin 3)\<rparr>))
     = []
   \<and> messages (performAll
        [AddUserMessage (JSString (ascii ''aaaaaa'')) 1,
         AddAssistantMessage (JSString (ascii ''bbbbbb'')) 2,
         AddUserMessage (JSString (ascii ''cccccc'')) 3]
        (newConversationManager \<lparr>optSystemPrompt = None, optMaxHistoryTokens = Some (Fin 3)\<rparr>))
     = [\<lparr>role = USER, content = JSString (ascii ''cccccc''), timestamp = 3\<rparr>]
   \<and> \<not> even (length (messages (performAll
        [AddUserMessage (JSString (ascii ''aaaaaa'')) 1,
         AddAssistantMessage (JSString (ascii ''bbbbbb'')) 2,
         AddUserMessage (JSString (ascii ''cccccc'')) 3]
        (newConversationManager \<lparr>optSystemPrompt = None, optMaxHistoryTokens = Some (Fin 3)\<rparr>))))"
  by (simp add: performAll_def addUserMessage_def addAssistantMessage_def newConversationManager_def
      push_def trimHistoryIfNeeded_def calculateTotalTokens_def estimateTokens_string
      trimLoop.simps jsGt_def ascii_def)

text \<open>
  Claim C6, amended. After a run of \<open>addUserMessage\<close> and \<open>addAssistantMessage\<close> calls the
  count of stored messages is the count before plus the number of calls minus twice a
  number of removed pairs, so it is at most that sum and has its parity. And when
  messages remain after the run, the last of them is the message that the last call
  added.
\<close>

theorem count_after_appends:
  assumes "\<forall>call\<in>set calls. appended call \<noteq> None"
  shows "(\<exists>k. length (messages (performAll calls c)) + 2 * k = length (messages c) + length calls)
       \<and> (calls \<noteq> [] \<and> messages (performAll calls c) \<noteq> [] \<longrightarrow>
            Some (last (messages (performAll calls c))) = appended (last calls))"
proof (intro conjI impI)
  show "\<exists>k. length (messages (performAll calls c)) + 2 * k = length (messages c) + length calls"
    using performAll_add_count[OF assms] .
next
  assume a: "calls \<noteq> [] \<and> messages (performAll calls c) \<noteq> []"
  then obtain front call where calls: "calls = front @ [call]"
    by (metis rev_exhaust)
  with assms obtain msg where msg: "appended call = Some msg" by auto
  from a have "messages (perform call (performAll front c)) \<noteq> []"
    by (simp add: calls performAll_snoc)
  from perform_add_last[OF msg this] msg
  show "Some (last (messages (performAll calls c))) = appended (last calls)"
    by (simp add: calls performAll_snoc)
qed

theorem count_after_appends_witness:
  "length (messages (performAll
        [AddUserMessage (JSString (ascii ''aaaaaa'')) 1,
         AddAssistantMessage (JSString (ascii ''bbbbbb'')) 2,
         AddUserMessage (JSString (ascii ''cccccc'')) 3,
         AddAssistantMessage (JSString (ascii ''ddd'')) 4]
        (newConversationManager \<lparr>optSystemPrompt = None, optMaxHistoryTokens = Some (Fin 3)\<rparr>)))
     = 2
   \<and> last (messages (performAll
        [AddUserMessage (JSString (ascii ''aaaaaa'')) 1,
         AddAssistantMessage (JSString (ascii ''bbbbbb'')) 2,
         AddUserMessage (JSString (ascii ''cccccc'')) 3,
         AddAssistantMessage (JSString (ascii ''ddd'')) 4]
        (newConversationManager \<lparr>optSystemPrompt = None, optMaxHistoryTokens = Some (Fin 3)\<rparr>)))
     = \<lparr>role = ASSISTANT, content = JSString (ascii ''ddd''), timestamp = 4\<rparr>"
  using count_after_appends [of
        "[AddUserMessage (JSString (ascii ''aaaaaa'')) 1,
         AddAssistantMessage (JSString (ascii ''bbbbbb'')) 2,
         AddUserMessage (JSString (ascii ''cccccc'')) 3,
         AddAssistantMessage (JSString (ascii ''ddd'')) 4]"
        "newConversationManager \<lparr>optSystemPrompt = None, optMaxHistoryTokens = Some (Fin 3)\<rparr>"]
  by (simp add: performAll_def addUserMessage_def addAssistantMessage_def newConversationManager_def
      push_def trimHistoryIfNeeded_def calculateTotalTokens_def estimateTokens_string
      trimLoop.simps jsGt_def ascii_def)


section \<open>The empty system prompt\<close>

lemma perform_no_system_message:
  assumes "\<forall>m\<in>set (messages c). role m \<noteq> SYSTEM"
  shows "\<forall>m\<in>set (messages (perform call c)). role m \<noteq> SYSTEM"
proof (cases "appended call")
  case None
  with assms show ?thesis
    by (cases call) (simp_all add: setSystemPrompt_def clear_def)
next
  case (Some msg)
  then have r: "role msg \<noteq> SYSTEM"
    by (cases call) auto
  from append_then_trim[of c msg] obtain k where
    "messages (perform call c) = drop (2 * k) (messages c @ [msg])"
    by (auto simp: perform_appended[OF Some])
  moreover have "set (drop (2 * k) (messages c @ [msg])) \<subseteq> set (messages c @ [msg])"
    by (rule set_drop_subset)
  ultimately show ?thesis
    using assms r by auto
qed

lemma performAll_no_system_message:
  assumes "\<forall>m\<in>set (messages c). role m \<noteq> SYSTEM"
  shows "\<forall>m\<in>set (messages (performAll calls c)). role m \<noteq> SYSTEM"
  using assms
proof (induction calls arbitrary: c)
  case Nil
  then show ?case by (simp add: performAll_def)
next
  case (Cons call calls)
  from Cons.IH[OF perform_no_system_message[OF Cons.prems]] show ?case
    by (simp add: performAll_Cons)
qed

text \<open>
  Claim C10. A history constructed without a system prompt holds the empty string, and
  \<open>setSystemPrompt\<close> with the empty string sets it. Whenever the system prompt of a
  history, made by the constructor and any calls, is the empty string, \<open>getMessages\<close> has
  no entry of the role \<open>SYSTEM\<close>, and with no messages \<open>exportToText\<close> is the text of the
  empty conversation.
\<close>

theorem empty_system_prompt_is_no_system_prompt:
  "systemPrompt (newConversationManager \<lparr>optSystemPrompt = None, optMaxHistoryTokens = limit\<rparr>) = []
   \<and> systemPrompt (setSystemPrompt [] c) = []
   \<and> (systemPrompt (performAll calls (newConversationManager opts)) = [] \<longrightarrow>
        (\<forall>e\<in>set (getMessages (performAll calls (newConversationManager opts))). role e \<noteq> SYSTEM)
        \<and> (messages (performAll calls (newConversationManager opts)) = [] \<longrightarrow>
             exportToText toLocaleString numberToString
               (performAll calls (newConversationManager opts)) = emptyConversation))"
proof -
  have "\<forall>m\<in>set (messages (newConversationManager opts)). role m \<noteq> SYSTEM"
    by (simp add: newConversationManager_def)
  from performAll_no_system_message[OF this, of calls]
  have "systemPrompt (performAll calls (newConversationManager opts)) = [] \<longrightarrow>
        (\<forall>e\<in>set (getMessages (performAll calls (newConversationManager opts))). role e \<noteq> SYSTEM)"
    by (auto simp: getMessages_def)
  then show ?thesis
    by (simp add: newConversationManager_def setSystemPrompt_def exportToText_def)
qed

theorem empty_system_prompt_is_no_system_prompt_witness:
  "getMessages (performAll
      [AddUserMessage (JSString (ascii ''hi'')) 1, SetSystemPrompt []]
      (newConversationManager \<lparr>optSystemPrompt = Some (ascii ''sys''), optMaxHistoryTokens = None\<rparr>))
     = [\<lparr>role = USER, content = JSString (ascii ''hi'')\<rparr>]
   \<and> exportToText (\<lambda>t. ascii ''date'') (\<lambda>n. ascii ''number'') (performAll
      [AddUserMessage (JSString (ascii ''hi'')) 1, Clear, SetSystemPrompt []]
      (newConversationManager \<lparr>optSystemPrompt = Some (ascii ''sys''), optMaxHistoryTokens = None\<rparr>))
     = emptyConversation"
  using
    empty_system_prompt_is_no_system_prompt [of None
      "newConversationManager \<lparr>optSystemPrompt = None, optMaxHistoryTokens = None\<rparr>"
      "[AddUserMessage (JSString (ascii ''hi'')) 1, SetSystemPrompt []]"
      "\<lparr>optSystemPrompt = Some (ascii ''sys''), optMaxHistoryTokens = None\<rparr>"
      "\<lambda>t. ascii ''date''" "\<lambda>n. ascii ''number''"]
    empty_system_prompt_is_no_system_prompt [of None
      "newConversationManager \<lparr>optSystemPrompt = None, optMaxHistoryTokens = None\<rparr>"
      "[AddUserMessage (JSString (ascii ''hi'')) 1, Clear, SetSystemPrompt []]"
      "\<lparr>optSystemPrompt = Some (ascii ''sys''), optMaxHistoryTokens = None\<rparr>"
      "\<lambda>t. ascii ''date''" "\<lambda>n. ascii ''number''"]
  by (simp add: performAll_def addUserMessage_def newConversationManager_def setSystemPrompt_def
      clear_def getMessages_def exportToText_def
      push_def trimHistoryIfNeeded_def calculateTotalTokens_def estimateTokens_string
      trimLoop.simps jsGt_def ascii_def DEFAULT_MAX_HISTORY_TOKENS_def)


section \<open>The budget thresholds\<close>



section \<open>The status label of the report\<close>





section \<open>The price of a model\<close>

lemma getProperty_missing:
  "map_of table key = None \<Longrightarrow> key \<notin> set objectPrototypeKeys \<Longrightarrow> getProperty table key = None"
  by (simp add: getProperty_def)

lemma getProperty_GLM_default: "getProperty glmPrices (ascii ''GLM-4.7'') = Some (Prices (1 / 2) (1 / 2))"
  by (simp add: getProperty_def glmPrices_def ascii_def)

lemma getProperty_claude_default: "getProperty claudePrices DEFAULT_MODEL_NAME = Some (Prices 3 15)"
  by (simp add: getProperty_def claudePrices_def DEFAULT_MODEL_NAME_def ascii_def)

lemma startsWith_GLM_default: "startsWith (ascii ''GLM-4.7'') (ascii ''GLM'')"
  by (simp add: startsWith_def ascii_def)

lemma startsWith_claude_default: "\<not> startsWith DEFAULT_MODEL_NAME (ascii ''GLM'')"
  by (simp add: startsWith_def DEFAULT_MODEL_NAME_def ascii_def)

lemma getModelPrices_unknown:
  assumes "map_of glmPrices m = None" and "map_of claudePrices m = None"
    and "m \<notin> set objectPrototypeKeys"
  shows "getModelPrices cfg (Some m) =
           Some (if startsWith m (ascii ''GLM'') then Prices (1 / 2) (1 / 2) else Prices 3 15)"
  using assms
  by (simp add: getModelPrices_def getProperty_missing getProperty_GLM_default
      getProperty_claude_default)

lemma getModelPrices_GLM_default: "getModelPrices cfg (Some (ascii ''GLM-4.7'')) = Some (Prices (1 / 2) (1 / 2))"
  by (simp add: getModelPrices_def startsWith_GLM_default getProperty_GLM_default)

lemma getModelPrices_claude_default: "getModelPrices cfg (Some DEFAULT_MODEL_NAME) = Some (Prices 3 15)"
  by (simp add: getModelPrices_def startsWith_claude_default getProperty_claude_default)

text \<open>
  Claim C3, as stated, at the model \<open>GLM-5\<close>, which neither table has, with the default
  model that the configuration has when the environment sets none: a million input tokens
  cost 0.5 for \<open>GLM-5\<close> and 3 for the default model.
\<close>

theorem unknown_model_counterexample:
  "map_of glmPrices (ascii ''GLM-5'') = None
   \<and> map_of claudePrices (ascii ''GLM-5'') = None
   \<and> calculateCost \<lparr>DEFAULT_MODEL = loadDefaultModel None, DAILY_BUDGET = Fin (1 / 2)\<rparr>
        (JSNumber (Fin 1000000)) (JSNumber (Fin 0)) (Some (ascii ''GLM-5''))
      \<noteq> calculateCost \<lparr>DEFAULT_MODEL = loadDefaultModel None, DAILY_BUDGET = Fin (1 / 2)\<rparr>
        (JSNumber (Fin 1000000)) (JSNumber (Fin 0))
        (Some (DEFAULT_MODEL \<lparr>DEFAULT_MODEL = loadDefaultModel None, DAILY_BUDGET = Fin (1 / 2)\<rparr>))"
  by (simp add: calculateCost_def getModelPrices_def getProperty_def startsWith_def
      glmPrices_def claudePrices_def objectPrototypeKeys_def loadDefaultModel_def
      DEFAULT_MODEL_NAME_def ascii_def)

text \<open>
  Claim C3, amended. For valid token counts and a model that neither table has and that
  is not the name of a member of \<open>Object.prototype\<close>, \<open>calculateCost\<close> returns what it
  returns for \<open>GLM-4.7\<close> when the model starts with \<open>GLM\<close>, and what it returns for
  \<open>DEFAULT_MODEL_NAME\<close> otherwise, and it raises no error.
\<close>

theorem unknown_model_falls_back:
  assumes "map_of glmPrices m = None" and "map_of claudePrices m = None"
    and "m \<notin> set objectPrototypeKeys"
    and "\<not> invalidCount inputArg" and "\<not> invalidCount outputArg"
  shows "calculateCost cfg inputArg outputArg (Some m) =
           calculateCost cfg inputArg outputArg
             (Some (if startsWith m (ascii ''GLM'') then ascii ''GLM-4.7'' else DEFAULT_MODEL_NAME))
         \<and> (\<exists>details. calculateCost cfg inputArg outputArg (Some m) = Inr details)"
  using assms
  by (simp add: calculateCost_def getModelPrices_unknown getModelPrices_GLM_default
      getModelPrices_claude_default)

theorem unknown_model_falls_back_witness:
  "calculateCost \<lparr>DEFAULT_MODEL = DEFAULT_MODEL_NAME, DAILY_BUDGET = Fin (1 / 2)\<rparr>
      (JSNumber (Fin 1000000)) (JSNumber (Fin 2000000)) (Some (ascii ''invalid-model-name''))
     = calculateCost \<lparr>DEFAULT_MODEL = DEFAULT_MODEL_NAME, DAILY_BUDGET = Fin (1 / 2)\<rparr>
      (JSNumber (Fin 1000000)) (JSNumber (Fin 2000000)) (Some DEFAULT_MODEL_NAME)
   \<and> calculateCost \<lparr>DEFAULT_MODEL = DEFAULT_MODEL_NAME, DAILY_BUDGET = Fin (1 / 2)\<rparr>
      (JSNumber (Fin 1000000)) (JSNumber (Fin 2000000)) (Some (ascii ''GLM-5''))
     = calculateCost \<lparr>DEFAULT_MODEL = DEFAULT_MODEL_NAME, DAILY_BUDGET = Fin (1 / 2)\<rparr>
      (JSNumber (Fin 1000000)) (JSNumber (Fin 2000000)) (Some (ascii ''GLM-4.7''))"
  using
    unknown_model_falls_back [of "ascii ''invalid-model-name''" "JSNumber (Fin 1000000)"
      "JSNumber (Fin 2000000)" "\<lparr>DEFAULT_MODEL = DEFAULT_MODEL_NAME, DAILY_BUDGET = Fin (1 / 2)\<rparr>"]
    unknown_model_falls_back [of "ascii ''GLM-5''" "JSNumber (Fin 1000000)"
      "JSNumber (Fin 2000000)" "\<lparr>DEFAULT_MODEL = DEFAULT_MODEL_NAME, DAILY_BUDGET = Fin (1 / 2)\<rparr>"]
  by (simp add: glmPrices_def claudePrices_def objectPrototypeKeys_def startsWith_def ascii_def)


section \<open>The cost breakdown\<close>

text \<open>
  With a model that is not the name of a member of \<open>Object.prototype\<close> the prices are
  positive numbers, and the breakdown of finite non-negative counts is the one of the
  formulas; zero tokens then cost zero.
\<close>

lemma table_prices_positive:
  "map_of glmPrices m = Some (a, b) \<Longrightarrow> 0 < a \<and> 0 < b"
  "map_of claudePrices m = Some (a, b) \<Longrightarrow> 0 < a \<and> 0 < b"
  by (auto simp: glmPrices_def claudePrices_def split: if_splits)

lemma getProperty_own_or_missing:
  assumes "key \<notin> set objectPrototypeKeys"
  shows "getProperty glmPrices key = None \<or> (\<exists>a b. 0 < a \<and> 0 < b \<and> getProperty glmPrices key = Some (Prices a b))"
    and "getProperty claudePrices key = None \<or> (\<exists>a b. 0 < a \<and> 0 < b \<and> getProperty claudePrices key = Some (Prices a b))"
  using assms table_prices_positive
  by (auto simp: getProperty_def split: option.splits)

lemma getModelPrices_positive:
  assumes "modelOf cfg modelArg \<notin> set objectPrototypeKeys"
  shows "\<exists>a b. 0 < a \<and> 0 < b \<and> getModelPrices cfg modelArg = Some (Prices a b)"
proof (cases "startsWith (modelOf cfg modelArg) (ascii ''GLM'')")
  case True
  from getProperty_own_or_missing(1)[OF assms] show ?thesis
  proof
    assume "getProperty glmPrices (modelOf cfg modelArg) = None"
    with True have "getModelPrices cfg modelArg = Some (Prices (1 / 2) (1 / 2))"
      by (simp add: getModelPrices_def modelOf_def getProperty_GLM_default)
    then show ?thesis by (intro exI[of _ "1 / 2"]) simp
  next
    assume "\<exists>a b. 0 < a \<and> 0 < b \<and> getProperty glmPrices (modelOf cfg modelArg) = Some (Prices a b)"
    with True show ?thesis
      by (auto simp: getModelPrices_def modelOf_def)
  qed
next
  case False
  from getProperty_own_or_missing(2)[OF assms] show ?thesis
  proof
    assume "getProperty claudePrices (modelOf cfg modelArg) = None"
    with False have "getModelPrices cfg modelArg = Some (Prices 3 15)"
      by (simp add: getModelPrices_def modelOf_def getProperty_claude_default)
    then show ?thesis by (intro exI[of _ 3] exI[of _ 15]) simp
  next
    assume "\<exists>a b. 0 < a \<and> 0 < b \<and> getProperty claudePrices (modelOf cfg modelArg) = Some (Prices a b)"
    with False show ?thesis
      by (auto simp: getModelPrices_def modelOf_def)
  qed
qed

lemma calculateCost_breakdown:
  assumes "0 \<le> i" and "0 \<le> j" and "modelOf cfg modelArg \<notin> set objectPrototypeKeys"
  shows "\<exists>a b. 0 < a \<and> 0 < b \<and> getModelPrices cfg modelArg = Some (Prices a b)
           \<and> calculateCost cfg (JSNumber (Fin i)) (JSNumber (Fin j)) modelArg =
               Inr \<lparr> inputTokens = Fin i, outputTokens = Fin j, totalTokens = Fin (i + j),
                     inputCost = Fin (i / 1000000 * a), outputCost = Fin (j / 1000000 * b),
                     totalCost = Fin (i / 1000000 * a + j / 1000000 * b) \<rparr>"
proof -
  from getModelPrices_positive[OF assms(3)] obtain a b where
    "0 < a" "0 < b" "getModelPrices cfg modelArg = Some (Prices a b)" by blast
  with assms(1,2) show ?thesis
    by (intro exI[of _ a] exI[of _ b]) (simp add: calculateCost_def)
qed

text \<open>
  Claim C4 at \<open>calculateCost(0, 0, 'toString')\<close>. Neither table has the key \<open>toString\<close>,
  the property read finds \<open>Object.prototype.toString\<close>, which is truthy, so the default
  entry is not used, and the costs of zero tokens are \<open>NaN\<close>, not 0.
\<close>

theorem calculateCost_inherited_member:
  "map_of glmPrices (ascii ''toString'') = None
   \<and> map_of claudePrices (ascii ''toString'') = None
   \<and> calculateCost cfg (JSNumber (Fin 0)) (JSNumber (Fin 0)) (Some (ascii ''toString'')) =
       Inr \<lparr> inputTokens = Fin 0, outputTokens = Fin 0, totalTokens = Fin 0,
             inputCost = NaN, outputCost = NaN, totalCost = NaN \<rparr>"
  by (simp add: calculateCost_def getModelPrices_def getProperty_def startsWith_def
      glmPrices_def claudePrices_def objectPrototypeKeys_def ascii_def)

section \<open>The running totals\<close>

text \<open>
  Claim C5 at one call \<open>addUsage(1, 1, 'toString')\<close> on a new tracker. The call succeeds,
  the cost it returns and the accumulated cost are \<open>NaN\<close>, and the accumulated cost
  after the call is not \<open>>=\<close> the cost before it.
\<close>

theorem addUsage_inherited_member:
  "addUsage cfg (JSNumber (Fin 1)) (JSNumber (Fin 1)) (Some (ascii ''toString''))
      (newTokenTracker cfg (Some (Fin 1))) =
     (Inr \<lparr> inputTokens = Fin 1, outputTokens = Fin 1, totalTokens = Fin 2,
            inputCost = NaN, outputCost = NaN, totalCost = NaN \<rparr>,
      \<lparr> budget = Fin 1,
        usage = \<lparr>inputTokens = Fin 1, outputTokens = Fin 1, totalTokens = Fin 2, cost = NaN\<rparr> \<rparr>)
   \<and> \<not> jsLe (getCurrentCost (newTokenTracker cfg (Some (Fin 1))))
        (getCurrentCost (snd (addUsage cfg (JSNumber (Fin 1)) (JSNumber (Fin 1))
           (Some (ascii ''toString'')) (newTokenTracker cfg (Some (Fin 1))))))"
  by (simp add: addUsage_def calculateCost_def getModelPrices_def getProperty_def startsWith_def
      glmPrices_def claudePrices_def objectPrototypeKeys_def ascii_def newTokenTracker_def
      zeroUsage_def getCurrentCost_def)

text \<open>
  What holds of the totals: the accumulated cost is the sum, from left to right, of the
  costs that the successful calls returned; and with models that are not names of members
  of \<open>Object.prototype\<close>, no total ever decreases.
\<close>

lemma nonNegative_add: "nonNegative x \<Longrightarrow> nonNegative y \<Longrightarrow> nonNegative (jsAdd x y) \<and> jsLe x (jsAdd x y)"
  by (cases x; cases y) (auto simp: nonNegative_def)

lemma nonNegative_cost:
  "nonNegative x \<Longrightarrow> 0 < a \<Longrightarrow> nonNegative (jsMul (jsDiv x (Fin 1000000)) (Fin a))"
  by (cases x) (auto simp: nonNegative_def)

lemma valid_count: "\<not> invalidCount v \<Longrightarrow> \<exists>n. v = JSNumber n \<and> nonNegative n"
  apply (cases v; simp add: nonNegative_def)
  subgoal for n by (cases n) auto
  done

lemma addUsage_grows:
  assumes "nonNegativeUsage t" and "modelOf cfg modelArg \<notin> set objectPrototypeKeys"
    and "addUsage cfg inputArg outputArg modelArg t = (Inr details, t')"
  shows "nonNegativeUsage t'
    \<and> jsLe (inputTokens (usage t)) (inputTokens (usage t'))
    \<and> jsLe (outputTokens (usage t)) (outputTokens (usage t'))
    \<and> jsLe (totalTokens (usage t)) (totalTokens (usage t'))
    \<and> jsLe (cost (usage t)) (cost (usage t'))
    \<and> cost (usage t') = jsAdd (cost (usage t)) (totalCost details)"
proof -
  from assms(3) have ok: "\<not> invalidCount inputArg" "\<not> invalidCount outputArg"
    by (auto simp: addUsage_def calculateCost_def Let_def split: if_splits)
  then obtain i j where ij: "inputArg = JSNumber i" "nonNegative i" "outputArg = JSNumber j" "nonNegative j"
    using valid_count by blast
  from assms(2) have "modelOf cfg (Some (modelOf cfg modelArg)) \<notin> set objectPrototypeKeys"
    by (simp add: modelOf_def)
  from getModelPrices_positive[OF this] obtain a b where
    ab: "0 < a" "0 < b" "getModelPrices cfg (Some (modelOf cfg modelArg)) = Some (Prices a b)"
    by blast
  have t': "t' = t\<lparr>usage :=
               \<lparr> inputTokens = jsAdd (inputTokens (usage t)) i,
                 outputTokens = jsAdd (outputTokens (usage t)) j,
                 totalTokens = jsAdd (totalTokens (usage t)) (jsAdd i j),
                 cost = jsAdd (cost (usage t)) (totalCost details) \<rparr>\<rparr>"
    and tc: "totalCost details = jsAdd (jsMul (jsDiv i (Fin 1000000)) (Fin a)) (jsMul (jsDiv j (Fin 1000000)) (Fin b))"
    using assms(3) ok ij ab
    by (auto simp: addUsage_def calculateCost_def Let_def modelOf_def)
  have "nonNegative (totalCost details)"
    unfolding tc using nonNegative_add nonNegative_cost ij(2,4) ab(1,2) by blast
  moreover have "nonNegative (jsAdd i j)"
    using nonNegative_add ij(2,4) by blast
  ultimately show ?thesis
    using assms(1) ij(2,4) nonNegative_add
    by (simp add: t' nonNegativeUsage_def)
qed

lemma jsLe_trans: "jsLe a b \<Longrightarrow> jsLe b c \<Longrightarrow> jsLe a c"
  by (cases a; cases b; cases c) auto

lemma jsLe_refl: "nonNegative a \<Longrightarrow> jsLe a a"
  by (cases a) (auto simp: nonNegative_def)

lemma addUsage_error_unchanged:
  "addUsage cfg inputArg outputArg modelArg t = (Inl e, t') \<Longrightarrow> t' = t"
  by (auto simp: addUsage_def Let_def split: sum.splits)

lemma addUsages_cost_is_sum:
  "getCurrentCost (snd (addUsages cfg calls t)) =
     foldl jsAdd (getCurrentCost t) (map totalCost (fst (addUsages cfg calls t)))"
proof (induction calls arbitrary: t)
  case Nil
  show ?case by simp
next
  case (Cons call calls)
  obtain inputArg outputArg modelArg where call: "call = (inputArg, outputArg, modelArg)"
    by (cases call)
  obtain r t' where r: "addUsage cfg inputArg outputArg modelArg t = (r, t')"
    by (cases "addUsage cfg inputArg outputArg modelArg t")
  show ?case
  proof (cases r)
    case (Inl e)
    with r have "t' = t" by (simp add: addUsage_error_unchanged)
    with Inl r call Cons.IH[of t] show ?thesis by simp
  next
    case (Inr details)
    with r have "getCurrentCost t' = jsAdd (getCurrentCost t) (totalCost details)"
      by (auto simp: addUsage_def Let_def getCurrentCost_def split: sum.splits)
    with Inr r call Cons.IH[of t'] show ?thesis by simp
  qed
qed

lemma addUsages_grow:
  assumes "nonNegativeUsage t"
    and "\<forall>call\<in>set calls. modelOf cfg (snd (snd call)) \<notin> set objectPrototypeKeys"
  shows "nonNegativeUsage (snd (addUsages cfg calls t))
    \<and> jsLe (inputTokens (usage t)) (inputTokens (usage (snd (addUsages cfg calls t))))
    \<and> jsLe (outputTokens (usage t)) (outputTokens (usage (snd (addUsages cfg calls t))))
    \<and> jsLe (totalTokens (usage t)) (totalTokens (usage (snd (addUsages cfg calls t))))
    \<and> jsLe (cost (usage t)) (cost (usage (snd (addUsages cfg calls t))))"
  using assms
proof (induction calls arbitrary: t)
  case Nil
  then show ?case by (simp add: nonNegativeUsage_def jsLe_refl)
next
  case (Cons call calls)
  obtain inputArg outputArg modelArg where call: "call = (inputArg, outputArg, modelArg)"
    by (cases call)
  obtain r t' where r: "addUsage cfg inputArg outputArg modelArg t = (r, t')"
    by (cases "addUsage cfg inputArg outputArg modelArg t")
  from Cons.prems(2) have rest: "\<forall>call\<in>set calls. modelOf cfg (snd (snd call)) \<notin> set objectPrototypeKeys"
    and here: "modelOf cfg modelArg \<notin> set objectPrototypeKeys"
    by (simp_all add: call)
  show ?case
  proof (cases r)
    case (Inl e)
    with r have "t' = t" by (simp add: addUsage_error_unchanged)
    with Inl r call Cons.IH[OF Cons.prems(1) rest] show ?thesis by simp
  next
    case (Inr details)
    from addUsage_grows[OF Cons.prems(1) here r[unfolded Inr]]
    have g: "nonNegativeUsage t'"
      "jsLe (inputTokens (usage t)) (inputTokens (usage t'))"
      "jsLe (outputTokens (usage t)) (outputTokens (usage t'))"
      "jsLe (totalTokens (usage t)) (totalTokens (usage t'))"
      "jsLe (cost (usage t)) (cost (usage t'))"
      by blast+
    have s: "snd (addUsages cfg (call # calls) t) = snd (addUsages cfg calls t')"
      using Inr r call by simp
    from Cons.IH[OF g(1) rest] g(2-5) show ?thesis
      unfolding s by (blast intro: jsLe_trans)
  qed
qed

section \<open>An invalid count leaves the tracker as it was\<close>

text \<open>
  Claim C9. When a token count of \<open>addUsage\<close> is invalid (not a number, \<open>NaN\<close> or
  negative) the call raises the error of \<open>calculateCost\<close>, that of the first invalid
  count, and the tracker after the call is the tracker before it.
\<close>

theorem addUsage_invalid_count_leaves_tracker:
  assumes "invalidCount inputArg \<or> invalidCount outputArg"
  shows "fst (addUsage cfg inputArg outputArg modelArg t) =
           Inl (if invalidCount inputArg then InvalidInputTokens else InvalidOutputTokens)
         \<and> snd (addUsage cfg inputArg outputArg modelArg t) = t"
  using assms by (auto simp: addUsage_def calculateCost_def Let_def)

theorem addUsage_invalid_count_leaves_tracker_witness:
  "addUsage \<lparr>DEFAULT_MODEL = DEFAULT_MODEL_NAME, DAILY_BUDGET = Fin (1 / 2)\<rparr>
      (JSNumber (Fin (- 1))) (JSNumber (Fin 5)) None
      \<lparr>budget = Fin 1, usage = \<lparr>inputTokens = Fin 10, outputTokens = Fin 20, totalTokens = Fin 30, cost = Fin (1 / 4)\<rparr>\<rparr>
    = (Inl InvalidInputTokens,
       \<lparr>budget = Fin 1, usage = \<lparr>inputTokens = Fin 10, outputTokens = Fin 20, totalTokens = Fin 30, cost = Fin (1 / 4)\<rparr>\<rparr>)
   \<and> addUsage \<lparr>DEFAULT_MODEL = DEFAULT_MODEL_NAME, DAILY_BUDGET = Fin (1 / 2)\<rparr>
      (JSNumber (Fin 5)) (JSNumber NaN) None
      \<lparr>budget = Fin 1, usage = \<lparr>inputTokens = Fin 10, outputTokens = Fin 20, totalTokens = Fin 30, cost = Fin (1 / 4)\<rparr>\<rparr>
    = (Inl InvalidOutputTokens,
       \<lparr>budget = Fin 1, usage = \<lparr>inputTokens = Fin 10, outputTokens = Fin 20, totalTokens = Fin 30, cost = Fin (1 / 4)\<rparr>\<rparr>)
   \<and> addUsage \<lparr>DEFAULT_MODEL = DEFAULT_MODEL_NAME, DAILY_BUDGET = Fin (1 / 2)\<rparr>
      (JSString (ascii ''5'')) (JSNumber (Fin 5)) None
      \<lparr>budget = Fin 1, usage = \<lparr>inputTokens = Fin 10, outputTokens = Fin 20, totalTokens = Fin 30, cost = Fin (1 / 4)\<rparr>\<rparr>
    = (Inl InvalidInputTokens,
       \<lparr>budget = Fin 1, usage = \<lparr>inputTokens = Fin 10, outputTokens = Fin 20, totalTokens = Fin 30, cost = Fin (1 / 4)\<rparr>\<rparr>)"
  using
    addUsage_invalid_count_leaves_tracker [of "JSNumber (Fin (- 1))" "JSNumber (Fin 5)"
      "\<lparr>DEFAULT_MODEL = DEFAULT_MODEL_NAME, DAILY_BUDGET = Fin (1 / 2)\<rparr>" None
      "\<lparr>budget = Fin 1, usage = \<lparr>inputTokens = Fin 10, outputTokens = Fin 20, totalTokens = Fin 30, cost = Fin (1 / 4)\<rparr>\<rparr>"]
    addUsage_invalid_count_leaves_tracker [of "JSNumber (Fin 5)" "JSNumber NaN"
      "\<lparr>DEFAULT_MODEL = DEFAULT_MODEL_NAME, DAILY_BUDGET = Fin (1 / 2)\<rparr>" None
      "\<lparr>budget = Fin 1, usage = \<lparr>inputTokens = Fin 10, outputTokens = Fin 20, totalTokens = Fin 30, cost = Fin (1 / 4)\<rparr>\<rparr>"]
    addUsage_invalid_count_leaves_tracker [of "JSString (ascii ''5'')" "JSNumber (Fin 5)"
      "\<lparr>DEFAULT_MODEL = DEFAULT_MODEL_NAME, DAILY_BUDGET = Fin (1 / 2)\<rparr>" None
      "\<lparr>budget = Fin 1, usage = \<lparr>inputTokens = Fin 10, outputTokens = Fin 20, totalTokens = Fin 30, cost = Fin (1 / 4)\<rparr>\<rparr>"]
  by (simp add: prod_eq_iff)


end
